theory Spec2Isabelle
  imports Main "HOL-Library.AList"
begin

section \<open>Python strings\<close>

text \<open>
  A Python \<open>str\<close> is a sequence of Unicode code points; it is modelled as a list of
  natural numbers. String literals of the source are ASCII and are written with
  \<open>ascii\<close>.
\<close>

type_synonym pystr = "nat list"

definition ascii :: "string \<Rightarrow> pystr" where
  "ascii s = map of_char s"

text \<open>
  The character tables of the Python runtime are not part of the repository. Their
  ASCII range is written out below; the entries for code points from 128 on are taken
  as a parameter.
\<close>

record ucd =
  ucd_isspace :: "nat \<Rightarrow> bool"
  ucd_todigit :: "nat \<Rightarrow> nat option"
  ucd_toupper :: "nat \<Rightarrow> nat list"

definition ch_isascii :: "nat \<Rightarrow> bool" where
  "ch_isascii c = (c < 128)"

definition ch_isspace :: "ucd \<Rightarrow> nat \<Rightarrow> bool" where
  "ch_isspace U c =
     (if c < 128 then (9 \<le> c \<and> c \<le> 13) \<or> (28 \<le> c \<and> c \<le> 32) else ucd_isspace U c)"

definition ch_todigit :: "ucd \<Rightarrow> nat \<Rightarrow> nat option" where
  "ch_todigit U c =
     (if c < 128 then (if 48 \<le> c \<and> c \<le> 57 then Some (c - 48) else None)
      else ucd_todigit U c)"

definition ch_toupper :: "ucd \<Rightarrow> nat \<Rightarrow> nat list" where
  "ch_toupper U c =
     (if c < 128 then [if 97 \<le> c \<and> c \<le> 122 then c - 32 else c] else ucd_toupper U c)"

definition strip :: "ucd \<Rightarrow> pystr \<Rightarrow> pystr" where
  "strip U s = rev (dropWhile (ch_isspace U) (rev (dropWhile (ch_isspace U) s)))"

definition upper :: "ucd \<Rightarrow> pystr \<Rightarrow> pystr" where
  "upper U s = concat (map (ch_toupper U) s)"

definition isdigit :: "ucd \<Rightarrow> pystr \<Rightarrow> bool" where
  "isdigit U s = (s \<noteq> [] \<and> list_all (\<lambda>c. ch_todigit U c \<noteq> None) s)"

text \<open>An excerpt of the tables beyond ASCII, for evaluating concrete inputs: no-break
  and ideographic space, fullwidth and Arabic-Indic digits, the Latin-1 letters.\<close>

definition ucd_excerpt :: ucd where
  "ucd_excerpt = \<lparr>
     ucd_isspace = (\<lambda>c. c = 160 \<or> c = 12288),
     ucd_todigit = (\<lambda>c. if 65296 \<le> c \<and> c \<le> 65305 then Some (c - 65296)
                        else if 1632 \<le> c \<and> c \<le> 1641 then Some (c - 1632) else None),
     ucd_toupper = (\<lambda>c. if 224 \<le> c \<and> c \<le> 254 \<and> c \<noteq> 247 then [c - 32] else [c]) \<rparr>"

section \<open>The record store\<close>

text \<open>
  The store is the Firebase Realtime Database, reached through \<open>firebase_admin.db\<close>;
  it is not repository code, and what the source relies on is written out here.
  A node of the store is a JSON object: a dictionary from field names to values, which
  are taken to be strings, as the fields the source writes and compares are.
  \<open>get\<close> on a path without data returns \<open>None\<close>. \<open>update\<close> writes the given fields
  of the node at a path and leaves its other fields as they are; it does not look
  whether the node exists, and writes to a path without data as well.
\<close>

type_synonym node = "(string \<times> pystr) list"
type_synonym store = "pystr \<Rightarrow> node option"

definition dict_get :: "node \<Rightarrow> string \<Rightarrow> pystr \<Rightarrow> pystr" where
  "dict_get d k dflt = (case map_of d k of None \<Rightarrow> dflt | Some v \<Rightarrow> v)"

definition ref_get :: "store \<Rightarrow> pystr \<Rightarrow> node option" where
  "ref_get db k = db k"

definition ref_update :: "store \<Rightarrow> pystr \<Rightarrow> node \<Rightarrow> store" where
  "ref_update db k kvs =
     db(k \<mapsto> fold (\<lambda>(f, v). AList.update f v) kvs (case db k of None \<Rightarrow> [] | Some d \<Rightarrow> d))"

section \<open>web.py: the administrator console\<close>

datatype route = Login | ViewApplication pystr

datatype flash =
    InvalidStatus            \<comment> \<open>"Invalid status."\<close>
  | StatusUpdated pystr pystr  \<comment> \<open>"Application {app_id} status updated to {new_status}."\<close>
  | UpdateFailed             \<comment> \<open>"Failed to update application in database."\<close>

record certificate =
  cert_name :: pystr
  cert_year :: pystr
  cert_branch :: pystr
  cert_prn :: pystr
  cert_batch :: pystr
  cert_purpose :: pystr
  cert_date :: pystr
  download_name :: pystr

datatype response =
    Redirect route
  | Plain string nat
  | SendFile certificate

text \<open>
  A request to the console: whether the session is logged in (\<open>@login_required\<close>
  redirects every other request to the login page) and the form field \<open>status\<close>,
  if present. \<open>store_ok\<close> says whether the store call of this request returns; if not
  it raises.
\<close>

record request =
  authenticated :: bool
  form_status :: "pystr option"
  store_ok :: bool

definition statuses :: "pystr list" where
  "statuses = [ascii ''Pending'', ascii ''Approved'', ascii ''Rejected'']"

text \<open>\<open>request.form.get("status", "").strip()\<close>\<close>

definition new_status :: "ucd \<Rightarrow> request \<Rightarrow> pystr" where
  "new_status U req = strip U (case form_status req of None \<Rightarrow> [] | Some s \<Rightarrow> s)"

text \<open>\<open>now\<close> is \<open>datetime.utcnow().isoformat()\<close> at the time of the request.\<close>

definition process_application ::
  "ucd \<Rightarrow> store \<Rightarrow> request \<Rightarrow> pystr \<Rightarrow> pystr \<Rightarrow> store \<times> flash list \<times> response" where
  "process_application U db req app_id now =
     (if \<not> authenticated req then (db, [], Redirect Login)
      else if new_status U req \<notin> set statuses
      then (db, [InvalidStatus], Redirect (ViewApplication app_id))
      else if store_ok req
      then (ref_update db app_id [(''status'', new_status U req), (''processed_at'', now)],
            [StatusUpdated app_id (new_status U req)], Redirect (ViewApplication app_id))
      else (db, [UpdateFailed], Redirect (ViewApplication app_id)))"

text \<open>A field of the record stored under a key, if there is one.\<close>

definition stored_field :: "store \<Rightarrow> pystr \<Rightarrow> string \<Rightarrow> pystr option" where
  "stored_field db k f = (case db k of None \<Rightarrow> None | Some d \<Rightarrow> map_of d f)"

text \<open>
  \<open>print_bonafide\<close>: the whole body is inside \<open>try\<close>, and every exception is
  answered with status 500. \<open>render_ok\<close> says whether drawing the PDF (reading the
  template image, writing the text) returns; \<open>today\<close> is the formatted date. The
  certificate sent is represented by the strings drawn on it and its file name.
\<close>

definition print_bonafide :: "store \<Rightarrow> request \<Rightarrow> pystr \<Rightarrow> bool \<Rightarrow> pystr \<Rightarrow> response" where
  "print_bonafide db req app_id render_ok today =
     (if \<not> authenticated req then Redirect Login
      else if \<not> store_ok req then Plain ''PDF generation failed. Check server logs.'' 500
      else
        case ref_get db app_id of
          None \<Rightarrow> Plain ''Application not found'' 404
        | Some app_data \<Rightarrow>
            if app_data = [] then Plain ''Application not found'' 404
            else if map_of app_data ''status'' \<noteq> Some (ascii ''Approved'')
            then Plain ''Application not approved'' 403
            else if \<not> render_ok then Plain ''PDF generation failed. Check server logs.'' 500
            else
              let prn = dict_get app_data ''prn'' [] in
              SendFile \<lparr>
                cert_name = dict_get app_data ''name'' [],
                cert_year = dict_get app_data ''year'' (ascii ''First Year''),
                cert_branch = dict_get app_data ''branch'' (ascii ''Engineering''),
                cert_prn = prn,
                cert_batch = dict_get app_data ''batch'' [],
                cert_purpose = dict_get app_data ''purpose'' (ascii ''Bonafide Certificate''),
                cert_date = today,
                download_name = prn @ ascii ''_bonafide.pdf'' \<rparr>)"

section \<open>TgBot.py: the bonafide conversation\<close>

text \<open>
  The states of the conversation. \<open>ConversationHandler.END\<close> is \<open>None\<close>: the user has
  no conversation.
\<close>

datatype conv_state = GET_PRN | GET_NAME | GET_PHONE | CONFIRM

type_synonym application_data = "(string \<times> pystr option) list"

text \<open>
  The state of one user: the conversation state kept by the handler, the entries of
  \<open>context.user_data\<close> that the source writes, and the records stored under
  \<open>bonafide_applications\<close> by this user's submissions, oldest first.
\<close>

record bot =
  conv :: "conv_state option"
  ud_chat_id :: "int option"
  ud_prn :: "pystr option"
  ud_student_data :: "node option"
  ud_name :: "pystr option"
  ud_phone :: "pystr option"
  applications :: "application_data list"

text \<open>
  An update from the transport: a text message that is not a command, a command (by
  name), a click on an inline button (callback data, chat id and date of the message
  that carries the button), or anything else.
\<close>

datatype update =
    Text pystr
  | Command string
  | CallbackQuery pystr int pystr
  | Other

datatype 'a outcome = Raised | Returned 'a

text \<open>
  What the outside does during one update: the answer of the student directory to a
  lookup, and whether storing a new application succeeds.
\<close>

record world =
  students :: "pystr \<Rightarrow> node option outcome"
  push_ok :: bool

datatype reply =
    AskPrn                 \<comment> \<open>"Please enter your 8-digit PRN Number:"\<close>
  | ClickBonafide          \<comment> \<open>"Please click the Bonafide button from the admin office menu."\<close>
  | InvalidPrn             \<comment> \<open>"Invalid PRN. Please enter your 8-digit PRN number (digits only) ..."\<close>
  | DatabaseError          \<comment> \<open>"Database error. Please try again later."\<close>
  | PrnNotFound            \<comment> \<open>"Invalid PRN. That PRN is not found in our database. ..."\<close>
  | NamePrompt pystr       \<comment> \<open>"PRN Verified for: {name} ..."\<close>
  | NameMismatch pystr     \<comment> \<open>"Invalid input. Name does not match database record ({correct_name}). ..."\<close>
  | PhonePrompt            \<comment> \<open>"Name verified. Please submit your 10-digit registered phone number."\<close>
  | PhoneMismatch          \<comment> \<open>"Invalid input. Phone number does not match our records. ..."\<close>
  | ConfirmPrompt          \<comment> \<open>"All details verified. Are you sure ...", with the yes/no buttons\<close>
  | Submitted              \<comment> \<open>"Application submitted successfully. ..."\<close>
  | SubmitError            \<comment> \<open>"An error occurred. Please try again later."\<close>
  | ApplicationCancelled   \<comment> \<open>"Application cancelled."\<close>
  | OperationCancelled     \<comment> \<open>"Operation cancelled."\<close>

text \<open>
  What a handler does to the outside, in order. \<open>PushSet\<close> is the call
  \<open>applications_ref.push().set(application_data)\<close>, whether or not it succeeds.
  The calls to the transport (\<open>reply_text\<close>, \<open>answer\<close>, \<open>edit_message_text\<close>) are
  taken to return.
\<close>

datatype action =
    ReplyText reply
  | Answer
  | EditMessageText reply
  | PushSet application_data

text \<open>\<open>str(d)\<close> for a number \<open>d\<close>: its decimal digits.\<close>

fun str_nat :: "nat \<Rightarrow> pystr" where
  "str_nat n = (if n < 10 then [48 + n] else str_nat (n div 10) @ [48 + n mod 10])"

declare str_nat.simps [simp del]

text \<open>
  The handlers. A handler gets the state of the user and returns it with the
  conversation state set to the value the source returns, and with the entries of
  \<open>user_data\<close> it assigns.
\<close>

definition start_bonafide_flow :: "bot \<Rightarrow> update \<Rightarrow> bot \<times> action list" where
  "start_bonafide_flow b upd =
     (case upd of
        CallbackQuery d chat date \<Rightarrow>
          (b\<lparr>conv := Some GET_PRN, ud_chat_id := Some chat\<rparr>, [Answer, EditMessageText AskPrn])
      | Text t \<Rightarrow> (b\<lparr>conv := None\<rparr>, [ReplyText ClickBonafide])
      | Command c \<Rightarrow> (b\<lparr>conv := None\<rparr>, [ReplyText ClickBonafide])
      | Other \<Rightarrow> (b\<lparr>conv := None\<rparr>, []))"

text \<open>Lines 168 to 192 of \<open>get_prn\<close>: the PRN after trimming and digit conversion.\<close>

definition normalize_prn :: "ucd \<Rightarrow> pystr \<Rightarrow> pystr" where
  "normalize_prn U raw =
     (let prn = strip U raw;
          prn_ascii = filter ch_isascii prn
      in if prn_ascii \<noteq> prn
         then concat (map (\<lambda>ch. case ch_todigit U ch of Some d \<Rightarrow> str_nat d | None \<Rightarrow> [ch]) prn)
         else prn)"

definition get_prn :: "ucd \<Rightarrow> world \<Rightarrow> bot \<Rightarrow> pystr \<Rightarrow> bot \<times> action list" where
  "get_prn U w b raw =
     (let prn = normalize_prn U raw in
      if \<not> isdigit U prn \<or> length prn \<noteq> 8
      then (b\<lparr>conv := Some GET_PRN\<rparr>, [ReplyText InvalidPrn])
      else
        case students w prn of
          Raised \<Rightarrow> (b\<lparr>conv := None\<rparr>, [ReplyText DatabaseError])
        | Returned None \<Rightarrow> (b\<lparr>conv := Some GET_PRN\<rparr>, [ReplyText PrnNotFound])
        | Returned (Some student_data) \<Rightarrow>
            if student_data = [] then (b\<lparr>conv := Some GET_PRN\<rparr>, [ReplyText PrnNotFound])
            else (b\<lparr>conv := Some GET_NAME, ud_prn := Some prn, ud_student_data := Some student_data\<rparr>,
                  [ReplyText (NamePrompt (dict_get student_data ''name'' (ascii ''<name not available>'')))]))"

text \<open>
  \<open>get_name\<close> and \<open>get_phone\<close> read \<open>context.user_data["student_data"]\<close>; without
  that entry the read raises, the handler returns nothing, and the conversation stays
  where it is.
\<close>

definition get_name :: "ucd \<Rightarrow> bot \<Rightarrow> pystr \<Rightarrow> bot \<times> action list" where
  "get_name U b text =
     (case ud_student_data b of
        None \<Rightarrow> (b, [])
      | Some student_data \<Rightarrow>
          let name_input = upper U (strip U text);
              correct_name = upper U (strip U (dict_get student_data ''name'' []))
          in if name_input \<noteq> correct_name
             then (b\<lparr>conv := Some GET_NAME\<rparr>, [ReplyText (NameMismatch correct_name)])
             else (b\<lparr>conv := Some GET_PHONE, ud_name := Some (strip U text)\<rparr>, [ReplyText PhonePrompt]))"

definition get_phone :: "ucd \<Rightarrow> bot \<Rightarrow> pystr \<Rightarrow> bot \<times> action list" where
  "get_phone U b text =
     (case ud_student_data b of
        None \<Rightarrow> (b, [])
      | Some student_data \<Rightarrow>
          let phone_input = strip U text;
              correct_phone = strip U (dict_get student_data ''phone'' [])
          in if phone_input \<noteq> correct_phone
             then (b\<lparr>conv := Some GET_PHONE\<rparr>, [ReplyText PhoneMismatch])
             else (b\<lparr>conv := Some CONFIRM, ud_phone := Some phone_input\<rparr>, [ReplyText ConfirmPrompt]))"

text \<open>
  \<open>confirm_submission\<close>: on \<open>confirm_yes\<close> the record is built and stored inside
  \<open>try\<close>; whether the store call returns or raises, \<open>finally\<close> returns \<open>END\<close>.
  Any other data takes the \<open>else\<close> branch. \<open>date\<close> is \<open>str(query.message.date)\<close>.
\<close>

definition confirm_submission :: "world \<Rightarrow> bot \<Rightarrow> pystr \<Rightarrow> pystr \<Rightarrow> bot \<times> action list" where
  "confirm_submission w b data date =
     (if data = ascii ''confirm_yes''
      then
        let student_data = (case ud_student_data b of None \<Rightarrow> [] | Some d \<Rightarrow> d);
            application_data =
              [(''prn'', ud_prn b),
               (''name'', ud_name b),
               (''phone'', ud_phone b),
               (''batch'', map_of student_data ''batch''),
               (''status'', Some (ascii ''Pending'')),
               (''submitted_at'', Some date)]
        in if push_ok w
           then (b\<lparr>conv := None, applications := applications b @ [application_data]\<rparr>,
                 [Answer, PushSet application_data, EditMessageText Submitted])
           else (b\<lparr>conv := None\<rparr>,
                 [Answer, PushSet application_data, EditMessageText SubmitError])
      else (b\<lparr>conv := None\<rparr>, [Answer, EditMessageText ApplicationCancelled]))"

definition cancel :: "bot \<Rightarrow> update \<Rightarrow> bot \<times> action list" where
  "cancel b upd =
     (case upd of
        CallbackQuery d chat date \<Rightarrow> (b\<lparr>conv := None\<rparr>, [Answer, EditMessageText OperationCancelled])
      | Text t \<Rightarrow> (b\<lparr>conv := None\<rparr>, [ReplyText OperationCancelled])
      | Command c \<Rightarrow> (b\<lparr>conv := None\<rparr>, [ReplyText OperationCancelled])
      | Other \<Rightarrow> (b\<lparr>conv := None\<rparr>, []))"

text \<open>
  The \<open>ConversationHandler\<close> of \<open>main\<close>. A callback pattern \<open>^word$\<close> matches the data
  \<open>word\<close>, and \<open>word\<close> followed by one newline. Without a conversation only the entry
  point is tried (\<open>allow_reentry=False\<close>); in a conversation the handlers of the
  current state are tried, then the fallbacks; an update that nothing matches leaves
  everything as it is.
\<close>

definition re_match :: "string \<Rightarrow> pystr \<Rightarrow> bool" where
  "re_match word d = (d = ascii word \<or> d = ascii word @ [10])"

definition fallbacks :: "bot \<Rightarrow> update \<Rightarrow> bot \<times> action list" where
  "fallbacks b upd =
     (case upd of
        Command c \<Rightarrow> if c = ''cancel'' then cancel b upd else (b, [])
      | CallbackQuery d chat date \<Rightarrow> if re_match ''cancel'' d then cancel b upd else (b, [])
      | Text t \<Rightarrow> (b, [])
      | Other \<Rightarrow> (b, []))"

definition conv_handler :: "ucd \<Rightarrow> world \<Rightarrow> bot \<Rightarrow> update \<Rightarrow> bot \<times> action list" where
  "conv_handler U w b upd =
     (case conv b of
        None \<Rightarrow>
          (case upd of
             CallbackQuery d chat date \<Rightarrow>
               if re_match ''start_bonafide_flow'' d then start_bonafide_flow b upd else (b, [])
           | Text t \<Rightarrow> (b, [])
           | Command c \<Rightarrow> (b, [])
           | Other \<Rightarrow> (b, []))
      | Some GET_PRN \<Rightarrow>
          (case upd of Text t \<Rightarrow> get_prn U w b t
           | Command c \<Rightarrow> fallbacks b upd
           | CallbackQuery d chat date \<Rightarrow> fallbacks b upd
           | Other \<Rightarrow> fallbacks b upd)
      | Some GET_NAME \<Rightarrow>
          (case upd of Text t \<Rightarrow> get_name U b t
           | Command c \<Rightarrow> fallbacks b upd
           | CallbackQuery d chat date \<Rightarrow> fallbacks b upd
           | Other \<Rightarrow> fallbacks b upd)
      | Some GET_PHONE \<Rightarrow>
          (case upd of Text t \<Rightarrow> get_phone U b t
           | Command c \<Rightarrow> fallbacks b upd
           | CallbackQuery d chat date \<Rightarrow> fallbacks b upd
           | Other \<Rightarrow> fallbacks b upd)
      | Some CONFIRM \<Rightarrow>
          (case upd of
             CallbackQuery d chat date \<Rightarrow>
               if re_match ''confirm_yes'' d \<or> re_match ''confirm_no'' d
               then confirm_submission w b d date
               else fallbacks b upd
           | Text t \<Rightarrow> fallbacks b upd
           | Command c \<Rightarrow> fallbacks b upd
           | Other \<Rightarrow> fallbacks b upd))"

text \<open>
  Running a sequence of updates, each with the outside as it is at that moment.
  \<open>run\<close> is the handler over the whole life of a user; \<open>session\<close> processes the
  updates of one session and stops when the conversation has ended.
\<close>

fun run :: "ucd \<Rightarrow> bot \<Rightarrow> (world \<times> update) list \<Rightarrow> bot \<times> action list" where
  "run U b [] = (b, [])"
| "run U b ((w, upd) # rest) =
     (let (b', acts) = conv_handler U w b upd;
          (b'', acts') = run U b' rest
      in (b'', acts @ acts'))"

fun session :: "ucd \<Rightarrow> bot \<Rightarrow> (world \<times> update) list \<Rightarrow> bot \<times> action list" where
  "session U b [] = (b, [])"
| "session U b ((w, upd) # rest) =
     (if conv b = None then (b, [])
      else
        let (b', acts) = conv_handler U w b upd;
            (b'', acts') = session U b' rest
        in (b'', acts @ acts'))"

fun pushes :: "action list \<Rightarrow> application_data list" where
  "pushes [] = []"
| "pushes (PushSet a # acts) = a # pushes acts"
| "pushes (ReplyText r # acts) = pushes acts"
| "pushes (Answer # acts) = pushes acts"
| "pushes (EditMessageText r # acts) = pushes acts"

section \<open>Notions used in the statements\<close>

text \<open>The update that starts a session: a click on the Bonafide button.\<close>

definition is_entry :: "update \<Rightarrow> bool" where
  "is_entry upd =
     (case upd of CallbackQuery d chat date \<Rightarrow> re_match ''start_bonafide_flow'' d
      | Text t \<Rightarrow> False | Command c \<Rightarrow> False | Other \<Rightarrow> False)"

text \<open>The number of session starts requested in a sequence of updates.\<close>

definition entries :: "(world \<times> update) list \<Rightarrow> nat" where
  "entries evs = length (filter (\<lambda>(w, upd). is_entry upd) evs)"

text \<open>
  The identifier rule in the words of the specification: trim whitespace; map any
  non-ASCII numeral character to its ASCII digit; accept exactly 8 ASCII digits.
\<close>

definition is_ascii_digit :: "nat \<Rightarrow> bool" where
  "is_ascii_digit c = (48 \<le> c \<and> c \<le> 57)"

definition spec_normalize :: "ucd \<Rightarrow> pystr \<Rightarrow> pystr" where
  "spec_normalize U raw =
     map (\<lambda>c. if c < 128 then c
              else case ucd_todigit U c of Some d \<Rightarrow> 48 + d | None \<Rightarrow> c)
       (strip U raw)"

definition spec_valid_identifier :: "ucd \<Rightarrow> pystr \<Rightarrow> bool" where
  "spec_valid_identifier U raw =
     (length (spec_normalize U raw) = 8 \<and> list_all is_ascii_digit (spec_normalize U raw))"

text \<open>The digit values of the character table are decimal digits.\<close>

definition digit_table :: "ucd \<Rightarrow> bool" where
  "digit_table U = (\<forall>c d. ucd_todigit U c = Some d \<longrightarrow> d < 10)"

text \<open>A text message whose identifier the specification's rule rejects.\<close>

definition malformed :: "ucd \<Rightarrow> world \<times> update \<Rightarrow> bool" where
  "malformed U ev =
     (case snd ev of Text raw \<Rightarrow> \<not> spec_valid_identifier U raw
      | Command c \<Rightarrow> False | CallbackQuery d chat date \<Rightarrow> False | Other \<Rightarrow> False)"

text \<open>
  Upper-casing a character beyond ASCII neither adds nor removes whitespace, as in the
  Unicode tables.
\<close>

definition space_table :: "ucd \<Rightarrow> bool" where
  "space_table U =
     (\<forall>c. \<not> c < 128 \<longrightarrow>
        filter (ch_isspace U) (ucd_toupper U c) = filter (ch_isspace U) [c])"

text \<open>A field of a submitted application, if it is present and not \<open>None\<close>.\<close>

definition app_field :: "application_data \<Rightarrow> string \<Rightarrow> pystr option" where
  "app_field a f = (case map_of a f of None \<Rightarrow> None | Some v \<Rightarrow> v)"

section \<open>Example data\<close>

text \<open>Concrete requests and records on which the definitions are evaluated.\<close>

definition admin_request :: "pystr \<Rightarrow> request" where
  "admin_request s = \<lparr>authenticated = True, form_status = Some s, store_ok = True\<rparr>"

definition example_app :: "pystr \<Rightarrow> node" where
  "example_app status =
     [(''prn'', ascii ''12345678''), (''name'', ascii ''John Smith''),
      (''phone'', ascii ''9000000000''), (''batch'', ascii ''2024-28''),
      (''status'', status), (''submitted_at'', ascii ''2024-05-01 09:00:00+00:00'')]"

definition example_db :: "pystr \<Rightarrow> store" where
  "example_db status = (\<lambda>k. if k = ascii ''app1'' then Some (example_app status) else None)"

definition example_now :: pystr where
  "example_now = ascii ''2024-05-02T10:00:00''"

definition admin_get :: request where
  "admin_get = \<lparr>authenticated = True, form_status = None, store_ok = True\<rparr>"

text \<open>
  The directory of the scenario: PRN 12345678 is John Smith, phone 9000000000, batch
  2024-28. The updates of the scenario, and the state of the user after each step.
\<close>

definition john :: node where
  "john = [(''name'', ascii ''John Smith''), (''phone'', ascii ''9000000000''),
           (''batch'', ascii ''2024-28'')]"

definition directory :: "pystr \<Rightarrow> node option outcome" where
  "directory k = Returned (if k = ascii ''12345678'' then Some john else None)"

definition scenario_world :: world where
  "scenario_world = \<lparr>students = directory, push_ok = True\<rparr>"

definition bot0 :: bot where
  "bot0 = \<lparr>conv = None, ud_chat_id = None, ud_prn = None, ud_student_data = None,
           ud_name = None, ud_phone = None, applications = []\<rparr>"

definition click :: "string \<Rightarrow> update" where
  "click d = CallbackQuery (ascii d) 42 (ascii ''2024-05-01 09:00:00+00:00'')"

definition scenario_updates :: "update list" where
  "scenario_updates =
     [click ''start_bonafide_flow'', Text (ascii ''12345678''), Text (ascii ''john smith''),
      Text (ascii ''9000000001''), Text (ascii ''9000000000''), click ''confirm_yes'']"

definition scenario :: "nat \<Rightarrow> bot \<times> action list" where
  "scenario n = run ucd_excerpt bot0 (map (Pair scenario_world) (take n scenario_updates))"

definition submitted_application :: application_data where
  "submitted_application =
     [(''prn'', Some (ascii ''12345678'')), (''name'', Some (ascii ''john smith'')),
      (''phone'', Some (ascii ''9000000000'')), (''batch'', Some (ascii ''2024-28'')),
      (''status'', Some (ascii ''Pending'')),
      (''submitted_at'', Some (ascii ''2024-05-01 09:00:00+00:00''))]"

definition after_entry :: bot where
  "after_entry = bot0\<lparr>conv := Some GET_PRN, ud_chat_id := Some 42\<rparr>"

definition after_prn :: bot where
  "after_prn = after_entry\<lparr>conv := Some GET_NAME, ud_prn := Some (ascii ''12345678''),
     ud_student_data := Some john\<rparr>"

definition after_name :: bot where
  "after_name = after_prn\<lparr>conv := Some GET_PHONE, ud_name := Some (ascii ''john smith'')\<rparr>"

definition after_phone :: bot where
  "after_phone = after_name\<lparr>conv := Some CONFIRM, ud_phone := Some (ascii ''9000000000'')\<rparr>"

definition after_confirm :: bot where
  "after_confirm = after_phone\<lparr>conv := None, applications := [submitted_application]\<rparr>"

definition phone_bot :: "pystr \<Rightarrow> bot" where
  "phone_bot stored = bot0\<lparr>conv := Some GET_PHONE, ud_student_data := Some [(''phone'', stored)]\<rparr>"

definition name_bot :: "pystr \<Rightarrow> bot" where
  "name_bot canonical = bot0\<lparr>conv := Some GET_NAME, ud_student_data := Some [(''name'', canonical)]\<rparr>"

definition fullwidth_prn :: pystr where
  "fullwidth_prn = [32, 65297, 65298, 65299, 65300, 53, 54, 55, 56, 12288]"

section \<open>Properties of the administrator console\<close>

subsection \<open>Evaluation of the examples\<close>

lemma ascii_eq_iff [simp]: "ascii s = ascii t \<longleftrightarrow> s = t"
  by (simp add: ascii_def inj_map_eq_map inj_def)

lemma admin_request_sel [simp]:
  "authenticated (admin_request s)" "store_ok (admin_request s)"
  "form_status (admin_request s) = Some s"
  by (simp_all add: admin_request_def)

lemma new_status_examples:
  "new_status ucd_excerpt (admin_request (ascii ''Approved'')) = ascii ''Approved''"
  "new_status ucd_excerpt (admin_request (ascii ''Rejected'')) = ascii ''Rejected''"
  "new_status ucd_excerpt (admin_request (ascii ''Done'')) = ascii ''Done''"
  by (simp_all add: new_status_def strip_def ch_isspace_def ascii_def)

lemma process_application_accepted:
  assumes "authenticated req" "new_status U req \<in> set statuses" "store_ok req"
  shows "process_application U db req app_id now =
         (ref_update db app_id [(''status'', new_status U req), (''processed_at'', now)],
          [StatusUpdated app_id (new_status U req)], Redirect (ViewApplication app_id))"
  using assms by (simp add: process_application_def)

lemma stored_field_ref_update:
  "stored_field (ref_update db k [(f1, v1), (f2, v2)]) k f =
     (if f = f2 then Some v2 else if f = f1 then Some v1 else stored_field db k f)"
  by (simp add: stored_field_def ref_update_def update_conv' split: option.splits)

lemma ref_update_other: "k' \<noteq> k \<Longrightarrow> ref_update db k kvs k' = db k'"
  by (simp add: ref_update_def)

subsection \<open>Status updates\<close>

text \<open>
  C5, as the code has it. \<open>process_application\<close> trims the form field \<open>status\<close>
  before it looks at it. A status update of a logged-in administrator whose submitted
  status, with surrounding whitespace trimmed, is none of \<open>Pending\<close>, \<open>Approved\<close>,
  \<open>Rejected\<close> is answered with the message "Invalid status." and the store is returned
  as it was: nothing is written.
\<close>

theorem invalid_status_rejected:
  assumes "authenticated req"
    and "new_status U req \<notin> set statuses"
  shows "process_application U db req app_id now
         = (db, [InvalidStatus], Redirect (ViewApplication app_id))"
  using assms by (simp add: process_application_def)

theorem invalid_status_rejected_witness:
  "authenticated (admin_request (ascii ''Done''))
   \<and> new_status ucd_excerpt (admin_request (ascii ''Done'')) \<notin> set statuses
   \<and> process_application ucd_excerpt (example_db (ascii ''Pending'')) (admin_request (ascii ''Done''))
         (ascii ''app1'') (ascii ''2024-05-02T10:00:00'')
       = (example_db (ascii ''Pending''), [InvalidStatus], Redirect (ViewApplication (ascii ''app1'')))"
proof -
  have a: "authenticated (admin_request (ascii ''Done''))" by simp
  have s: "new_status ucd_excerpt (admin_request (ascii ''Done'')) \<notin> set statuses"
    by (simp add: new_status_examples statuses_def)
  from a s invalid_status_rejected [OF a s] show ?thesis by simp
qed

text \<open>
  C5 as stated fails: the submitted status \<open>Approved\<close> with a blank before and after it
  is none of the three values, yet the request is accepted: the pending example
  application is stored with status \<open>Approved\<close> and \<open>processed_at\<close>, and the
  administrator gets the success message.
\<close>

theorem padded_status_accepted:
  "ascii '' Approved '' \<notin> set statuses
   \<and> fst (process_application ucd_excerpt (example_db (ascii ''Pending''))
         (admin_request (ascii '' Approved '')) (ascii ''app1'') example_now) (ascii ''app1'')
     = Some [(''prn'', ascii ''12345678''), (''name'', ascii ''John Smith''),
             (''phone'', ascii ''9000000000''), (''batch'', ascii ''2024-28''),
             (''status'', ascii ''Approved''),
             (''submitted_at'', ascii ''2024-05-01 09:00:00+00:00''),
             (''processed_at'', example_now)]
   \<and> snd (process_application ucd_excerpt (example_db (ascii ''Pending''))
         (admin_request (ascii '' Approved '')) (ascii ''app1'') example_now)
     = ([StatusUpdated (ascii ''app1'') (ascii ''Approved'')],
        Redirect (ViewApplication (ascii ''app1'')))"
proof -
  have trimmed: "new_status ucd_excerpt (admin_request (ascii '' Approved '')) = ascii ''Approved''"
    by (simp add: new_status_def strip_def ch_isspace_def ascii_def)
  have outside: "ascii '' Approved '' \<notin> set statuses"
    by (simp add: statuses_def)
  from outside show ?thesis
    by (simp add: process_application_def trimmed statuses_def ref_update_def
        example_db_def example_app_def)
qed

text \<open>
  C6. An accepted status update (logged in, target status one of the three, the store
  call returns) leaves every field of the application other than \<open>status\<close> and
  \<open>processed_at\<close> as it was, and leaves every other application untouched; so PRN,
  name, phone and batch never change. Setting \<open>Approved\<close> on a request succeeds with
  the success message and the status \<open>Approved\<close>, also when the application is
  \<open>Approved\<close> already.
\<close>

theorem status_update_frame:
  assumes "authenticated req" "new_status U req \<in> set statuses" "store_ok req"
  shows "(\<forall>f. f \<noteq> ''status'' \<and> f \<noteq> ''processed_at'' \<longrightarrow>
            stored_field (fst (process_application U db req app_id now)) app_id f
            = stored_field db app_id f)
       \<and> (\<forall>k. k \<noteq> app_id \<longrightarrow> fst (process_application U db req app_id now) k = db k)
       \<and> (new_status U req = ascii ''Approved'' \<longrightarrow>
            stored_field (fst (process_application U db req app_id now)) app_id ''status''
              = Some (ascii ''Approved'')
            \<and> snd (process_application U db req app_id now)
              = ([StatusUpdated app_id (ascii ''Approved'')], Redirect (ViewApplication app_id)))"
  by (simp add: process_application_accepted [OF assms] stored_field_ref_update ref_update_other)

theorem status_update_frame_witness:
  "authenticated (admin_request (ascii ''Approved''))
   \<and> new_status ucd_excerpt (admin_request (ascii ''Approved'')) \<in> set statuses
   \<and> store_ok (admin_request (ascii ''Approved''))
   \<and> stored_field (example_db (ascii ''Approved'')) (ascii ''app1'') ''status'' = Some (ascii ''Approved'')
   \<and> stored_field (fst (process_application ucd_excerpt (example_db (ascii ''Approved''))
         (admin_request (ascii ''Approved'')) (ascii ''app1'') (ascii ''2024-05-02T10:00:00'')))
         (ascii ''app1'') ''name'' = Some (ascii ''John Smith'')
   \<and> fst (process_application ucd_excerpt (example_db (ascii ''Approved''))
         (admin_request (ascii ''Approved'')) (ascii ''app1'') (ascii ''2024-05-02T10:00:00''))
         (ascii ''app2'') = None
   \<and> stored_field (fst (process_application ucd_excerpt (example_db (ascii ''Approved''))
         (admin_request (ascii ''Approved'')) (ascii ''app1'') (ascii ''2024-05-02T10:00:00'')))
         (ascii ''app1'') ''status'' = Some (ascii ''Approved'')
   \<and> snd (process_application ucd_excerpt (example_db (ascii ''Approved''))
         (admin_request (ascii ''Approved'')) (ascii ''app1'') (ascii ''2024-05-02T10:00:00''))
       = ([StatusUpdated (ascii ''app1'') (ascii ''Approved'')], Redirect (ViewApplication (ascii ''app1'')))"
proof -
  have a: "authenticated (admin_request (ascii ''Approved''))" by simp
  have s: "new_status ucd_excerpt (admin_request (ascii ''Approved'')) \<in> set statuses"
    by (simp add: new_status_examples statuses_def)
  have k: "store_ok (admin_request (ascii ''Approved''))" by simp
  have n: "stored_field (example_db (ascii ''Approved'')) (ascii ''app1'') ''name'' = Some (ascii ''John Smith'')"
    "stored_field (example_db (ascii ''Approved'')) (ascii ''app1'') ''status'' = Some (ascii ''Approved'')"
    "example_db (ascii ''Approved'') (ascii ''app2'') = None"
    by (simp_all add: stored_field_def example_db_def example_app_def)
  from status_update_frame [OF a s k, of "example_db (ascii ''Approved'')" "ascii ''app1''" "ascii ''2024-05-02T10:00:00''"]
  have "stored_field (fst (process_application ucd_excerpt (example_db (ascii ''Approved''))
         (admin_request (ascii ''Approved'')) (ascii ''app1'') (ascii ''2024-05-02T10:00:00'')))
         (ascii ''app1'') ''name'' = stored_field (example_db (ascii ''Approved'')) (ascii ''app1'') ''name''"
    and "fst (process_application ucd_excerpt (example_db (ascii ''Approved''))
         (admin_request (ascii ''Approved'')) (ascii ''app1'') (ascii ''2024-05-02T10:00:00''))
         (ascii ''app2'') = example_db (ascii ''Approved'') (ascii ''app2'')"
    and "stored_field (fst (process_application ucd_excerpt (example_db (ascii ''Approved''))
         (admin_request (ascii ''Approved'')) (ascii ''app1'') (ascii ''2024-05-02T10:00:00'')))
         (ascii ''app1'') ''status'' = Some (ascii ''Approved'')"
    and "snd (process_application ucd_excerpt (example_db (ascii ''Approved''))
         (admin_request (ascii ''Approved'')) (ascii ''app1'') (ascii ''2024-05-02T10:00:00''))
       = ([StatusUpdated (ascii ''app1'') (ascii ''Approved'')], Redirect (ViewApplication (ascii ''app1'')))"
    by (simp_all add: new_status_examples)
  with a s k n show ?thesis by simp
qed

text \<open>
  C3, as the code has it. An accepted status update stores the target status and stamps
  \<open>processed_at\<close> with the time of the request. No other field is written: the
  administrator's identity is not recorded.
\<close>

theorem status_update_stamps:
  assumes "authenticated req" "new_status U req \<in> set statuses" "store_ok req"
  shows "stored_field (fst (process_application U db req app_id now)) app_id ''status''
           = Some (new_status U req)
       \<and> stored_field (fst (process_application U db req app_id now)) app_id ''processed_at''
           = Some now
       \<and> (\<forall>f. stored_field (fst (process_application U db req app_id now)) app_id f
                \<noteq> stored_field db app_id f \<longrightarrow> f = ''status'' \<or> f = ''processed_at'')"
  by (simp add: process_application_accepted [OF assms] stored_field_ref_update)

theorem status_update_stamps_witness:
  "authenticated (admin_request (ascii ''Rejected''))
   \<and> new_status ucd_excerpt (admin_request (ascii ''Rejected'')) \<in> set statuses
   \<and> store_ok (admin_request (ascii ''Rejected''))
   \<and> stored_field (fst (process_application ucd_excerpt (example_db (ascii ''Pending''))
         (admin_request (ascii ''Rejected'')) (ascii ''app1'') example_now)) (ascii ''app1'') ''status''
       = Some (ascii ''Rejected'')
   \<and> stored_field (fst (process_application ucd_excerpt (example_db (ascii ''Pending''))
         (admin_request (ascii ''Rejected'')) (ascii ''app1'') example_now)) (ascii ''app1'') ''processed_at''
       = Some example_now
   \<and> stored_field (fst (process_application ucd_excerpt (example_db (ascii ''Pending''))
         (admin_request (ascii ''Rejected'')) (ascii ''app1'') example_now)) (ascii ''app1'') ''status''
       \<noteq> stored_field (example_db (ascii ''Pending'')) (ascii ''app1'') ''status''"
proof -
  have a: "authenticated (admin_request (ascii ''Rejected''))" by simp
  have s: "new_status ucd_excerpt (admin_request (ascii ''Rejected'')) \<in> set statuses"
    by (simp add: new_status_examples statuses_def)
  have k: "store_ok (admin_request (ascii ''Rejected''))" by simp
  have p: "stored_field (example_db (ascii ''Pending'')) (ascii ''app1'') ''status'' = Some (ascii ''Pending'')"
    by (simp add: stored_field_def example_db_def example_app_def)
  from status_update_stamps [OF a s k, of "example_db (ascii ''Pending'')" "ascii ''app1''" example_now]
    a s k p
  show ?thesis by (simp add: new_status_examples)
qed

text \<open>
  C3 as stated fails: after approving the pending example application the stored record
  is the old one with the new status and \<open>processed_at\<close>; it has no field
  \<open>processed_by\<close>, nor any other field naming the administrator.
\<close>

theorem processed_by_not_stamped:
  "fst (process_application ucd_excerpt (example_db (ascii ''Pending''))
         (admin_request (ascii ''Approved'')) (ascii ''app1'') example_now) (ascii ''app1'')
     = Some [(''prn'', ascii ''12345678''), (''name'', ascii ''John Smith''),
             (''phone'', ascii ''9000000000''), (''batch'', ascii ''2024-28''),
             (''status'', ascii ''Approved''),
             (''submitted_at'', ascii ''2024-05-01 09:00:00+00:00''),
             (''processed_at'', example_now)]
   \<and> stored_field (fst (process_application ucd_excerpt (example_db (ascii ''Pending''))
         (admin_request (ascii ''Approved'')) (ascii ''app1'') example_now)) (ascii ''app1'')
         ''processed_by'' = None"
  by (simp add: process_application_def new_status_examples statuses_def ref_update_def
      example_db_def example_app_def stored_field_def)

text \<open>
  C9. The update of an application id under which nothing is stored: the handler does
  not look the application up, the store writes the two fields under the new id, and
  the administrator is told the status was updated.
\<close>

theorem process_missing_application:
  "process_application ucd_excerpt (\<lambda>k. None) (admin_request (ascii ''Approved''))
       (ascii ''ghost'') example_now
     = ((\<lambda>k. None)(ascii ''ghost'' \<mapsto> [(''status'', ascii ''Approved''), (''processed_at'', example_now)]),
        [StatusUpdated (ascii ''ghost'') (ascii ''Approved'')],
        Redirect (ViewApplication (ascii ''ghost'')))"
  by (simp add: process_application_def new_status_examples statuses_def ref_update_def)

subsection \<open>Printing the certificate\<close>

text \<open>
  C4. \<open>print_bonafide\<close> sends a certificate only if the stored status is \<open>Approved\<close>.
  For a stored application (a record with at least one field, as every record of the
  store is) with any other status, or with none, a logged-in administrator gets
  "Application not approved" (403) and no certificate; for an id under which nothing
  is stored the answer is "Application not found" (404).
\<close>

theorem print_bonafide_gate:
  "(print_bonafide db req app_id render_ok today = SendFile c \<longrightarrow>
      stored_field db app_id ''status'' = Some (ascii ''Approved''))
   \<and> (authenticated req \<and> store_ok req \<and> db app_id = Some d \<and> d \<noteq> []
        \<and> map_of d ''status'' \<noteq> Some (ascii ''Approved'') \<longrightarrow>
      print_bonafide db req app_id render_ok today = Plain ''Application not approved'' 403)
   \<and> (authenticated req \<and> store_ok req \<and> db app_id = None \<longrightarrow>
      print_bonafide db req app_id render_ok today = Plain ''Application not found'' 404)"
  by (auto simp add: print_bonafide_def ref_get_def stored_field_def Let_def
      split: if_splits option.splits)

theorem print_bonafide_gate_witness:
  "print_bonafide (example_db (ascii ''Approved'')) admin_get (ascii ''app1'') True (ascii ''02 / 05 / 2024'')
     = SendFile \<lparr>cert_name = ascii ''John Smith'', cert_year = ascii ''First Year'',
         cert_branch = ascii ''Engineering'', cert_prn = ascii ''12345678'',
         cert_batch = ascii ''2024-28'', cert_purpose = ascii ''Bonafide Certificate'',
         cert_date = ascii ''02 / 05 / 2024'', download_name = ascii ''12345678_bonafide.pdf''\<rparr>
   \<and> stored_field (example_db (ascii ''Approved'')) (ascii ''app1'') ''status'' = Some (ascii ''Approved'')
   \<and> authenticated admin_get \<and> store_ok admin_get
   \<and> example_db (ascii ''Rejected'') (ascii ''app1'') = Some (example_app (ascii ''Rejected''))
   \<and> example_app (ascii ''Rejected'') \<noteq> []
   \<and> map_of (example_app (ascii ''Rejected'')) ''status'' \<noteq> Some (ascii ''Approved'')
   \<and> print_bonafide (example_db (ascii ''Rejected'')) admin_get (ascii ''app1'') True (ascii ''02 / 05 / 2024'')
     = Plain ''Application not approved'' 403
   \<and> example_db (ascii ''Rejected'') (ascii ''ghost'') = None
   \<and> print_bonafide (example_db (ascii ''Rejected'')) admin_get (ascii ''ghost'') True (ascii ''02 / 05 / 2024'')
     = Plain ''Application not found'' 404"
proof -
  have sent: "print_bonafide (example_db (ascii ''Approved'')) admin_get (ascii ''app1'') True (ascii ''02 / 05 / 2024'')
     = SendFile \<lparr>cert_name = ascii ''John Smith'', cert_year = ascii ''First Year'',
         cert_branch = ascii ''Engineering'', cert_prn = ascii ''12345678'',
         cert_batch = ascii ''2024-28'', cert_purpose = ascii ''Bonafide Certificate'',
         cert_date = ascii ''02 / 05 / 2024'', download_name = ascii ''12345678_bonafide.pdf''\<rparr>"
    by (simp add: print_bonafide_def admin_get_def ref_get_def example_db_def example_app_def
        dict_get_def) (simp add: ascii_def)
  have pre: "authenticated admin_get" "store_ok admin_get"
    "example_db (ascii ''Rejected'') (ascii ''app1'') = Some (example_app (ascii ''Rejected''))"
    "example_app (ascii ''Rejected'') \<noteq> []"
    "map_of (example_app (ascii ''Rejected'')) ''status'' \<noteq> Some (ascii ''Approved'')"
    "example_db (ascii ''Rejected'') (ascii ''ghost'') = None"
    by (simp_all add: admin_get_def example_db_def example_app_def)
  from sent pre
    print_bonafide_gate [of "example_db (ascii ''Approved'')" admin_get "ascii ''app1''" True
      "ascii ''02 / 05 / 2024''" _ "example_app (ascii ''Rejected'')"]
    print_bonafide_gate [of "example_db (ascii ''Rejected'')" admin_get "ascii ''app1''" True
      "ascii ''02 / 05 / 2024''" _ "example_app (ascii ''Rejected'')"]
    print_bonafide_gate [of "example_db (ascii ''Rejected'')" admin_get "ascii ''ghost''" True
      "ascii ''02 / 05 / 2024''" _ "example_app (ascii ''Rejected'')"]
  show ?thesis by simp
qed

section \<open>Properties of the conversation\<close>

subsection \<open>Single steps of the handler\<close>

lemmas handler_defs = conv_handler_def fallbacks_def cancel_def start_bonafide_flow_def
  get_prn_def get_name_def get_phone_def confirm_submission_def

lemma pushes_append: "pushes (xs @ ys) = pushes xs @ pushes ys"
  by (induction xs rule: pushes.induct) simp_all

lemma stay: "conv b = Some st \<Longrightarrow> b\<lparr>conv := Some st\<rparr> = b"
  by (cases b) simp

lemma strip_plain:
  assumes "s \<noteq> []" "\<not> ch_isspace U (hd s)" "\<not> ch_isspace U (last s)"
  shows "strip U s = s"
proof -
  from assms have a: "dropWhile (ch_isspace U) s = s" by (cases s) simp_all
  from assms have "dropWhile (ch_isspace U) (rev s) = rev s"
    by (cases "rev s") (simp_all add: hd_rev)
  with a show ?thesis by (simp add: strip_def)
qed

lemma strip_examples:
  "strip U (ascii ''12345678'') = ascii ''12345678''"
  "strip U (ascii ''john smith'') = ascii ''john smith''"
  "strip U (ascii ''John Smith'') = ascii ''John Smith''"
  "strip U (ascii ''9000000001'') = ascii ''9000000001''"
  "strip U (ascii ''9000000000'') = ascii ''9000000000''"
  by (rule strip_plain; simp add: ascii_def ch_isspace_def)+

lemma strip_phone_examples:
  "strip U (ascii ''9876543210'') = ascii ''9876543210''"
  "strip U (ascii ''09876543210'') = ascii ''09876543210''"
  by (rule strip_plain; simp add: ascii_def ch_isspace_def)+

lemma strip_padded:
  "strip U (ascii '' 9000000000 '') = ascii ''9000000000''"
  "strip U (ascii ''9000000000 '') = ascii ''9000000000''"
  "strip U (ascii ''  jane doe '') = ascii ''jane doe''"
  by (simp_all add: strip_def ascii_def ch_isspace_def)

lemma strip_name_examples:
  "strip U (ascii ''Jane Doe'') = ascii ''Jane Doe''"
  "strip U (ascii ''JANE  DOE'') = ascii ''JANE  DOE''"
  "strip U (ascii ''JANEDOE'') = ascii ''JANEDOE''"
  by (rule strip_plain; simp add: ascii_def ch_isspace_def)+

lemma upper_examples:
  "upper U (ascii ''john smith'') = ascii ''JOHN SMITH''"
  "upper U (ascii ''John Smith'') = ascii ''JOHN SMITH''"
  by (simp_all add: upper_def ascii_def ch_toupper_def)

lemma upper_name_examples:
  "upper U (ascii ''Jane Doe'') = ascii ''JANE DOE''"
  "upper U (ascii ''jane doe'') = ascii ''JANE DOE''"
  "upper U (ascii ''JANE  DOE'') = ascii ''JANE  DOE''"
  "upper U (ascii ''JANEDOE'') = ascii ''JANEDOE''"
  by (simp_all add: upper_def ascii_def ch_toupper_def)

lemma get_name_step:
  assumes "conv b = Some GET_NAME" "ud_student_data b = Some sd"
  shows "conv_handler U w b (Text t) =
     (if upper U (strip U t) = upper U (strip U (dict_get sd ''name'' []))
      then (b\<lparr>conv := Some GET_PHONE, ud_name := Some (strip U t)\<rparr>, [ReplyText PhonePrompt])
      else (b, [ReplyText (NameMismatch (upper U (strip U (dict_get sd ''name'' []))))]))"
  using assms by (simp add: conv_handler_def get_name_def Let_def stay)

lemma get_phone_step:
  assumes "conv b = Some GET_PHONE" "ud_student_data b = Some sd"
  shows "conv_handler U w b (Text t) =
     (if strip U t = strip U (dict_get sd ''phone'' [])
      then (b\<lparr>conv := Some CONFIRM, ud_phone := Some (strip U t)\<rparr>, [ReplyText ConfirmPrompt])
      else (b, [ReplyText PhoneMismatch]))"
  using assms by (simp add: conv_handler_def get_phone_def Let_def stay)

lemma get_prn_step:
  assumes "conv b = Some GET_PRN" "normalize_prn U raw = prn" "isdigit U prn" "length prn = 8"
    "students w prn = Returned (Some sd)" "sd \<noteq> []"
  shows "conv_handler U w b (Text raw) =
     (b\<lparr>conv := Some GET_NAME, ud_prn := Some prn, ud_student_data := Some sd\<rparr>,
      [ReplyText (NamePrompt (dict_get sd ''name'' (ascii ''<name not available>'')))])"
  using assms by (simp add: conv_handler_def get_prn_def Let_def)

lemma confirm_yes_step:
  assumes "conv b = Some CONFIRM" "push_ok w"
  shows "conv_handler U w b (CallbackQuery (ascii ''confirm_yes'') chat date) =
     (b\<lparr>conv := None,
        applications := applications b @
          [[(''prn'', ud_prn b), (''name'', ud_name b), (''phone'', ud_phone b),
            (''batch'', map_of (case ud_student_data b of None \<Rightarrow> [] | Some d \<Rightarrow> d) ''batch''),
            (''status'', Some (ascii ''Pending'')), (''submitted_at'', Some date)]]\<rparr>,
      [Answer,
       PushSet [(''prn'', ud_prn b), (''name'', ud_name b), (''phone'', ud_phone b),
            (''batch'', map_of (case ud_student_data b of None \<Rightarrow> [] | Some d \<Rightarrow> d) ''batch''),
            (''status'', Some (ascii ''Pending'')), (''submitted_at'', Some date)],
       EditMessageText Submitted])"
  using assms by (simp add: conv_handler_def confirm_submission_def Let_def re_match_def)

lemma entry_step:
  assumes "conv b = None"
  shows "conv_handler U w b (CallbackQuery (ascii ''start_bonafide_flow'') chat date) =
     (b\<lparr>conv := Some GET_PRN, ud_chat_id := Some chat\<rparr>, [Answer, EditMessageText AskPrn])"
  using assms by (simp add: conv_handler_def start_bonafide_flow_def re_match_def)

lemma normalize_ascii:
  "filter ch_isascii (strip U raw) = strip U raw \<Longrightarrow> normalize_prn U raw = strip U raw"
  by (simp add: normalize_prn_def)

lemma prn_example:
  "normalize_prn U (ascii ''12345678'') = ascii ''12345678''"
  "isdigit U (ascii ''12345678'')"
  "length (ascii ''12345678'') = 8"
proof -
  have "filter ch_isascii (ascii ''12345678'') = ascii ''12345678''"
    by (simp add: ascii_def ch_isascii_def)
  then show "normalize_prn U (ascii ''12345678'') = ascii ''12345678''"
    using normalize_ascii [of U "ascii ''12345678''"] by (simp add: strip_examples)
  show "isdigit U (ascii ''12345678'')"
    by (simp add: isdigit_def ascii_def ch_todigit_def)
  show "length (ascii ''12345678'') = 8"
    by (simp add: ascii_def)
qed

lemma directory_john: "students scenario_world (ascii ''12345678'') = Returned (Some john)"
  by (simp add: scenario_world_def directory_def)

lemma john_fields:
  "john \<noteq> []"
  "dict_get john ''name'' d = ascii ''John Smith''"
  "dict_get john ''phone'' d = ascii ''9000000000''"
  "map_of john ''batch'' = Some (ascii ''2024-28'')"
  by (simp_all add: john_def dict_get_def)

lemmas scenario_bots = after_entry_def after_prn_def after_name_def after_phone_def
  after_confirm_def bot0_def

lemma scenario_steps:
  "conv_handler ucd_excerpt scenario_world bot0 (click ''start_bonafide_flow'')
     = (after_entry, [Answer, EditMessageText AskPrn])"
  "conv_handler ucd_excerpt scenario_world after_entry (Text (ascii ''12345678''))
     = (after_prn, [ReplyText (NamePrompt (ascii ''John Smith''))])"
  "conv_handler ucd_excerpt scenario_world after_prn (Text (ascii ''john smith''))
     = (after_name, [ReplyText PhonePrompt])"
  "conv_handler ucd_excerpt scenario_world after_name (Text (ascii ''9000000001''))
     = (after_name, [ReplyText PhoneMismatch])"
  "conv_handler ucd_excerpt scenario_world after_name (Text (ascii ''9000000000''))
     = (after_phone, [ReplyText ConfirmPrompt])"
  "conv_handler ucd_excerpt scenario_world after_phone (click ''confirm_yes'')
     = (after_confirm, [Answer, PushSet submitted_application, EditMessageText Submitted])"
proof -
  show "conv_handler ucd_excerpt scenario_world bot0 (click ''start_bonafide_flow'')
     = (after_entry, [Answer, EditMessageText AskPrn])"
    by (simp add: click_def entry_step scenario_bots)
  show "conv_handler ucd_excerpt scenario_world after_entry (Text (ascii ''12345678''))
     = (after_prn, [ReplyText (NamePrompt (ascii ''John Smith''))])"
    by (subst get_prn_step [where prn = "ascii ''12345678''" and sd = john])
       (simp_all add: prn_example directory_john john_fields scenario_bots)
  show "conv_handler ucd_excerpt scenario_world after_prn (Text (ascii ''john smith''))
     = (after_name, [ReplyText PhonePrompt])"
    by (subst get_name_step [where sd = john])
       (simp_all add: scenario_bots john_fields strip_examples upper_examples)
  show "conv_handler ucd_excerpt scenario_world after_name (Text (ascii ''9000000001''))
     = (after_name, [ReplyText PhoneMismatch])"
    by (subst get_phone_step [where sd = john])
       (simp_all add: scenario_bots john_fields strip_examples)
  show "conv_handler ucd_excerpt scenario_world after_name (Text (ascii ''9000000000''))
     = (after_phone, [ReplyText ConfirmPrompt])"
    by (subst get_phone_step [where sd = john])
       (simp_all add: scenario_bots john_fields strip_examples)
  show "conv_handler ucd_excerpt scenario_world after_phone (click ''confirm_yes'')
     = (after_confirm, [Answer, PushSet submitted_application, EditMessageText Submitted])"
    unfolding click_def
    by (subst confirm_yes_step)
       (simp_all add: scenario_bots john_fields scenario_world_def submitted_application_def)
qed

lemma scenario_run:
  "scenario 1 = (after_entry, [Answer, EditMessageText AskPrn])"
  "scenario 2 = (after_prn, [Answer, EditMessageText AskPrn,
      ReplyText (NamePrompt (ascii ''John Smith''))])"
  "scenario 3 = (after_name, [Answer, EditMessageText AskPrn,
      ReplyText (NamePrompt (ascii ''John Smith'')), ReplyText PhonePrompt])"
  "scenario 4 = (after_name, [Answer, EditMessageText AskPrn,
      ReplyText (NamePrompt (ascii ''John Smith'')), ReplyText PhonePrompt,
      ReplyText PhoneMismatch])"
  "scenario 5 = (after_phone, [Answer, EditMessageText AskPrn,
      ReplyText (NamePrompt (ascii ''John Smith'')), ReplyText PhonePrompt,
      ReplyText PhoneMismatch, ReplyText ConfirmPrompt])"
  "scenario 6 = (after_confirm, [Answer, EditMessageText AskPrn,
      ReplyText (NamePrompt (ascii ''John Smith'')), ReplyText PhonePrompt,
      ReplyText PhoneMismatch, ReplyText ConfirmPrompt,
      Answer, PushSet submitted_application, EditMessageText Submitted])"
  unfolding scenario_def scenario_updates_def
  by (simp_all add: scenario_steps del: ascii_eq_iff)

lemma scenario_conv:
  "conv after_entry = Some GET_PRN" "conv after_prn = Some GET_NAME"
  "conv after_name = Some GET_PHONE" "conv after_phone = Some CONFIRM"
  "conv after_confirm = None"
  by (simp_all add: scenario_bots)

lemma phone_bot_sel:
  "conv (phone_bot s) = Some GET_PHONE"
  "ud_student_data (phone_bot s) = Some [(''phone'', s)]"
  "dict_get [(''phone'', s)] ''phone'' d = s"
  by (simp_all add: phone_bot_def bot0_def dict_get_def)

lemma name_bot_sel:
  "conv (name_bot s) = Some GET_NAME"
  "ud_student_data (name_bot s) = Some [(''name'', s)]"
  "dict_get [(''name'', s)] ''name'' d = s"
  by (simp_all add: name_bot_def bot0_def dict_get_def)

subsection \<open>Submission happens at most once\<close>

lemma step_pushes:
  assumes "pushes (snd (conv_handler U w b upd)) \<noteq> []"
  shows "conv b = Some CONFIRM"
    and "\<exists>chat date. upd = CallbackQuery (ascii ''confirm_yes'') chat date"
    and "conv (fst (conv_handler U w b upd)) = None"
    and "length (pushes (snd (conv_handler U w b upd))) = 1"
  using assms
  by (auto simp add: handler_defs Let_def
      split: option.splits conv_state.splits update.splits if_splits outcome.splits)

lemma step_idle:
  assumes "conv b = None" "\<not> is_entry upd"
  shows "conv_handler U w b upd = (b, [])"
  using assms by (auto simp add: conv_handler_def is_entry_def split: update.splits)

lemma step_entry:
  assumes "conv b = None"
  shows "pushes (snd (conv_handler U w b upd)) = []"
  using step_pushes(1) [of U w b upd] assms by auto

lemma session_ended: "conv b = None \<Longrightarrow> session U b evs = (b, [])"
  by (cases evs) auto

lemma session_pushes: "length (pushes (snd (session U b evs))) \<le> 1"
proof (induction evs arbitrary: b)
  case Nil
  show ?case by simp
next
  case (Cons e rest)
  obtain w upd where e: "e = (w, upd)" by (cases e)
  obtain b' acts where h: "conv_handler U w b upd = (b', acts)" by (cases "conv_handler U w b upd")
  show ?case
  proof (cases "conv b = None")
    case True
    then show ?thesis by (simp add: e)
  next
    case active: False
    show ?thesis
    proof (cases "pushes acts = []")
      case True
      with Cons.IH [of b'] active show ?thesis
        by (simp add: e h pushes_append split_beta)
    next
      case False
      with step_pushes(3,4) [of U w b upd] have "conv b' = None" "length (pushes acts) = 1"
        by (simp_all add: h)
      with active show ?thesis
        by (simp add: e h pushes_append session_ended)
    qed
  qed
qed

lemma run_pushes:
  "length (pushes (snd (run U b evs))) \<le> (if conv b = None then 0 else 1) + entries evs"
proof (induction evs arbitrary: b)
  case Nil
  show ?case by simp
next
  case (Cons e rest)
  obtain w upd where e: "e = (w, upd)" by (cases e)
  obtain b' acts where h: "conv_handler U w b upd = (b', acts)" by (cases "conv_handler U w b upd")
  have split: "pushes (snd (run U b (e # rest))) = pushes acts @ pushes (snd (run U b' rest))"
    by (simp add: e h pushes_append split_beta)
  have ih: "length (pushes (snd (run U b' rest))) \<le> (if conv b' = None then 0 else 1) + entries rest"
    by (rule Cons.IH)
  have ent: "entries (e # rest) = (if is_entry upd then 1 else 0) + entries rest"
    by (simp add: entries_def e)
  show ?case
  proof (cases "conv b = None")
    case idle: True
    have none: "pushes acts = []" using step_entry [OF idle, of U w upd] by (simp add: h)
    show ?thesis
    proof (cases "is_entry upd")
      case True
      with ih none idle show ?thesis unfolding split ent by (simp split: if_splits)
    next
      case False
      with step_idle [OF idle False, of U w] h have "b' = b" by simp
      with ih none idle show ?thesis unfolding split ent by simp
    qed
  next
    case active: False
    show ?thesis
    proof (cases "pushes acts = []")
      case True
      with ih active show ?thesis unfolding split ent by (auto split: if_splits)
    next
      case False
      with step_pushes(3,4) [of U w b upd] have "conv b' = None" "length (pushes acts) = 1"
        by (simp_all add: h)
      with ih active show ?thesis unfolding split ent by auto
    qed
  qed
qed

text \<open>
  C1. In one session (from any state, over any sequence of updates, whatever the
  outside does) \<open>applications_ref.push().set\<close> is called at most once. Over the whole
  life of a user the number of calls is at most the number of sessions: one for a
  session already running plus one for every later entry click. A single update calls
  it only in state \<open>CONFIRM\<close> on the callback \<open>confirm_yes\<close>, exactly once, and the
  conversation has ended afterwards, whether or not the store accepted the record.
\<close>

theorem create_at_most_once:
  "length (pushes (snd (session U b evs))) \<le> 1
   \<and> length (pushes (snd (run U b evs))) \<le> (if conv b = None then 0 else 1) + entries evs
   \<and> (pushes (snd (conv_handler U w b upd)) \<noteq> [] \<longrightarrow>
        conv b = Some CONFIRM
        \<and> (\<exists>chat date. upd = CallbackQuery (ascii ''confirm_yes'') chat date)
        \<and> conv (fst (conv_handler U w b upd)) = None
        \<and> length (pushes (snd (conv_handler U w b upd))) = 1)"
proof (intro conjI impI)
  show "length (pushes (snd (session U b evs))) \<le> 1"
    by (rule session_pushes)
  show "length (pushes (snd (run U b evs))) \<le> (if conv b = None then 0 else 1) + entries evs"
    by (rule run_pushes)
qed (rule step_pushes, assumption)+

theorem create_at_most_once_witness:
  "pushes (snd (conv_handler ucd_excerpt scenario_world after_phone (click ''confirm_yes''))) \<noteq> []
   \<and> conv after_phone = Some CONFIRM
   \<and> click ''confirm_yes'' = CallbackQuery (ascii ''confirm_yes'') 42 (ascii ''2024-05-01 09:00:00+00:00'')
   \<and> conv (fst (conv_handler ucd_excerpt scenario_world after_phone (click ''confirm_yes''))) = None
   \<and> length (pushes (snd (conv_handler ucd_excerpt scenario_world after_phone (click ''confirm_yes'')))) = 1
   \<and> length (pushes (snd (session ucd_excerpt after_phone
        [(scenario_world, click ''confirm_yes''), (scenario_world, click ''confirm_yes'')]))) \<le> 1"
proof -
  have fired: "pushes (snd (conv_handler ucd_excerpt scenario_world after_phone (click ''confirm_yes''))) \<noteq> []"
    by (simp add: scenario_steps)
  note inst = create_at_most_once [where U = ucd_excerpt and b = after_phone and w = scenario_world
      and upd = "click ''confirm_yes''"
      and evs = "[(scenario_world, click ''confirm_yes''), (scenario_world, click ''confirm_yes'')]"]
  have shape: "click ''confirm_yes''
      = CallbackQuery (ascii ''confirm_yes'') 42 (ascii ''2024-05-01 09:00:00+00:00'')"
    by (simp add: click_def)
  from inst have once: "length (pushes (snd (session ucd_excerpt after_phone
        [(scenario_world, click ''confirm_yes''), (scenario_world, click ''confirm_yes'')]))) \<le> 1"
    by (rule conjunct1)
  from inst fired have
    "conv after_phone = Some CONFIRM
     \<and> conv (fst (conv_handler ucd_excerpt scenario_world after_phone (click ''confirm_yes''))) = None
     \<and> length (pushes (snd (conv_handler ucd_excerpt scenario_world after_phone (click ''confirm_yes'')))) = 1"
    by blast
  with fired shape once show ?thesis by blast
qed

subsection \<open>The scenario\<close>

text \<open>
  C2, as the code has it. In the scenario the PRN and the name are accepted, the phone
  9000000001 is answered with the mismatch message and the state stays \<open>GET_PHONE\<close>,
  the phone 9000000000 is accepted, and the confirmation makes exactly one call that
  stores one application: PRN 12345678, the name as the requester typed it (trimmed),
  \<open>john smith\<close>, phone 9000000000, batch 2024-28, status Pending.
\<close>

theorem scenario_submits_typed_name:
  "map conv (map fst (map scenario [1, 2, 3, 4, 5, 6]))
     = [Some GET_PRN, Some GET_NAME, Some GET_PHONE, Some GET_PHONE, Some CONFIRM, None]
   \<and> snd (scenario 2) = snd (scenario 1) @ [ReplyText (NamePrompt (ascii ''John Smith''))]
   \<and> snd (scenario 3) = snd (scenario 2) @ [ReplyText PhonePrompt]
   \<and> snd (scenario 4) = snd (scenario 3) @ [ReplyText PhoneMismatch]
   \<and> snd (scenario 5) = snd (scenario 4) @ [ReplyText ConfirmPrompt]
   \<and> snd (scenario 6) = snd (scenario 5)
        @ [Answer, PushSet submitted_application, EditMessageText Submitted]
   \<and> pushes (snd (scenario 6)) = [submitted_application]
   \<and> applications (fst (scenario 6)) = [submitted_application]
   \<and> app_field submitted_application ''name'' = Some (ascii ''john smith'')
   \<and> app_field submitted_application ''phone'' = Some (ascii ''9000000000'')
   \<and> app_field submitted_application ''batch'' = Some (ascii ''2024-28'')
   \<and> app_field submitted_application ''status'' = Some (ascii ''Pending'')"
  by (simp add: scenario_run scenario_conv del: One_nat_def)
     (simp add: scenario_bots submitted_application_def app_field_def)

text \<open>
  C2 as stated fails: the name of the stored application is the typed \<open>john smith\<close>,
  not the directory's \<open>John Smith\<close>.
\<close>

theorem scenario_name_not_canonical:
  "pushes (snd (scenario 6)) = [submitted_application]
   \<and> app_field submitted_application ''name'' = Some (ascii ''john smith'')
   \<and> app_field submitted_application ''name'' \<noteq> Some (ascii ''John Smith'')"
  by (simp add: scenario_run) (simp add: submitted_application_def app_field_def)

subsection \<open>The PRN check\<close>

lemma str_nat_digit: "d < 10 \<Longrightarrow> str_nat d = [48 + d]"
  by (simp add: str_nat.simps)

lemma convert_char:
  assumes "digit_table U"
  shows "(case ch_todigit U c of Some d \<Rightarrow> str_nat d | None \<Rightarrow> [c])
         = [if c < 128 then c else case ucd_todigit U c of Some d \<Rightarrow> 48 + d | None \<Rightarrow> c]"
  using assms
  by (auto simp add: ch_todigit_def digit_table_def str_nat_digit split: option.splits)

lemma filter_isascii_id:
  assumes "filter ch_isascii xs = xs"
  shows "map (\<lambda>c. if c < 128 then c else g c) xs = xs"
proof -
  from assms have "\<forall>x\<in>set xs. x < 128"
    by (simp add: filter_id_conv ch_isascii_def)
  then show ?thesis by (simp add: map_idI)
qed

lemma normalize_prn_spec:
  assumes "digit_table U"
  shows "normalize_prn U raw = spec_normalize U raw"
proof (cases "filter ch_isascii (strip U raw) = strip U raw")
  case True
  then show ?thesis
    by (simp add: normalize_prn_def spec_normalize_def Let_def filter_isascii_id)
next
  case False
  then show ?thesis
    by (simp add: normalize_prn_def spec_normalize_def Let_def convert_char [OF assms])
qed

lemma digit_table_bound: "digit_table U \<Longrightarrow> ucd_todigit U c = Some d \<Longrightarrow> d < 10"
  by (simp add: digit_table_def)

lemma digit_of_normalized:
  assumes "digit_table U"
  shows "(ch_todigit U (if c < 128 then c else case ucd_todigit U c of Some d \<Rightarrow> 48 + d | None \<Rightarrow> c) \<noteq> None)
   = is_ascii_digit (if c < 128 then c else case ucd_todigit U c of Some d \<Rightarrow> 48 + d | None \<Rightarrow> c)"
proof (cases "c < 128")
  case True
  then show ?thesis by (simp add: ch_todigit_def is_ascii_digit_def)
next
  case False
  show ?thesis
  proof (cases "ucd_todigit U c")
    case None
    with False show ?thesis by (simp add: ch_todigit_def is_ascii_digit_def)
  next
    case (Some d)
    with digit_table_bound [OF assms Some] False show ?thesis
      by (simp add: ch_todigit_def is_ascii_digit_def)
  qed
qed

lemma isdigit_spec_normalize:
  assumes "digit_table U"
  shows "list_all (\<lambda>c. ch_todigit U c \<noteq> None) (spec_normalize U raw)
         = list_all is_ascii_digit (spec_normalize U raw)"
  unfolding spec_normalize_def list.pred_map comp_def
  by (simp only: digit_of_normalized [OF assms])

lemma prn_check_spec:
  assumes "digit_table U"
  shows "(\<not> isdigit U (normalize_prn U raw) \<or> length (normalize_prn U raw) \<noteq> 8)
         = (\<not> spec_valid_identifier U raw)"
  using isdigit_spec_normalize [OF assms, of raw]
  by (auto simp add: normalize_prn_spec [OF assms] isdigit_def spec_valid_identifier_def)

lemma get_prn_rejects:
  assumes "digit_table U" "conv b = Some GET_PRN" "\<not> spec_valid_identifier U raw"
  shows "conv_handler U w b (Text raw) = (b, [ReplyText InvalidPrn])"
  using assms(2,3) prn_check_spec [OF assms(1), of raw]
  by (simp add: conv_handler_def get_prn_def Let_def stay)

lemma get_prn_accepts:
  assumes "digit_table U" "conv b = Some GET_PRN" "spec_valid_identifier U raw"
  shows "snd (conv_handler U w b (Text raw)) \<noteq> [ReplyText InvalidPrn]"
  using assms(2,3) prn_check_spec [OF assms(1), of raw]
  by (simp add: conv_handler_def get_prn_def Let_def split: outcome.splits option.splits)

lemma retry_forever:
  assumes "digit_table U" "conv b = Some GET_PRN" "list_all (malformed U) evs"
  shows "run U b evs = (b, replicate (length evs) (ReplyText InvalidPrn))"
  using assms(3)
proof (induction evs)
  case Nil
  show ?case by simp
next
  case (Cons e rest)
  obtain w upd where e: "e = (w, upd)" by (cases e)
  from Cons.prems obtain raw where upd: "upd = Text raw" and bad: "\<not> spec_valid_identifier U raw"
    by (auto simp add: e malformed_def split: update.splits)
  from Cons.prems have "list_all (malformed U) rest" by simp
  with Cons.IH get_prn_rejects [OF assms(1,2) bad, of w] show ?case
    by (simp add: e upd)
qed

lemma digit_table_excerpt: "digit_table ucd_excerpt"
  by (auto simp add: digit_table_def ucd_excerpt_def split: if_splits)

lemma spec_normalize_examples:
  "spec_normalize ucd_excerpt fullwidth_prn = ascii ''12345678''"
  "spec_normalize ucd_excerpt (ascii ''1234'') = ascii ''1234''"
  "spec_normalize ucd_excerpt (ascii ''1234567x'') = ascii ''1234567x''"
  by (simp_all add: spec_normalize_def fullwidth_prn_def strip_def ch_isspace_def ucd_excerpt_def ascii_def)

lemma spec_valid_examples:
  "spec_valid_identifier ucd_excerpt fullwidth_prn"
  "\<not> spec_valid_identifier ucd_excerpt (ascii ''1234'')"
  "\<not> spec_valid_identifier ucd_excerpt (ascii ''1234567x'')"
  by (simp_all add: spec_valid_identifier_def spec_normalize_examples)
     (simp_all add: ascii_def is_ascii_digit_def)

text \<open>
  C8. The PRN that \<open>get_prn\<close> checks is the input trimmed, with every non-ASCII
  character that has a digit value replaced by that ASCII digit. In state \<open>GET_PRN\<close>
  the input is rejected with the "Invalid PRN" message if and only if that string is
  not exactly 8 ASCII digits; a rejection leaves state and data as they were, and so
  does any number of rejections in a row.
\<close>

theorem prn_validation:
  assumes "digit_table U" and "conv b = Some GET_PRN"
  shows "normalize_prn U raw = spec_normalize U raw
       \<and> (snd (conv_handler U w b (Text raw)) = [ReplyText InvalidPrn])
           = (\<not> spec_valid_identifier U raw)
       \<and> (\<not> spec_valid_identifier U raw \<longrightarrow>
            conv_handler U w b (Text raw) = (b, [ReplyText InvalidPrn]))
       \<and> (list_all (malformed U) evs \<longrightarrow>
            run U b evs = (b, replicate (length evs) (ReplyText InvalidPrn)))"
proof (intro conjI impI)
  show "normalize_prn U raw = spec_normalize U raw"
    by (rule normalize_prn_spec [OF assms(1)])
  show "(snd (conv_handler U w b (Text raw)) = [ReplyText InvalidPrn])
         = (\<not> spec_valid_identifier U raw)"
    using get_prn_rejects [OF assms, of raw w] get_prn_accepts [OF assms, of raw w]
    by auto
  show "conv_handler U w b (Text raw) = (b, [ReplyText InvalidPrn])"
    if "\<not> spec_valid_identifier U raw"
    using get_prn_rejects [OF assms that] .
  show "run U b evs = (b, replicate (length evs) (ReplyText InvalidPrn))"
    if "list_all (malformed U) evs"
    using retry_forever [OF assms that] .
qed

theorem prn_validation_witness:
  "digit_table ucd_excerpt \<and> conv after_entry = Some GET_PRN
   \<and> normalize_prn ucd_excerpt fullwidth_prn = ascii ''12345678''
   \<and> spec_valid_identifier ucd_excerpt fullwidth_prn
   \<and> snd (conv_handler ucd_excerpt scenario_world after_entry (Text fullwidth_prn))
       \<noteq> [ReplyText InvalidPrn]
   \<and> \<not> spec_valid_identifier ucd_excerpt (ascii ''1234567x'')
   \<and> conv_handler ucd_excerpt scenario_world after_entry (Text (ascii ''1234567x''))
       = (after_entry, [ReplyText InvalidPrn])
   \<and> list_all (malformed ucd_excerpt)
        [(scenario_world, Text (ascii ''1234'')), (scenario_world, Text (ascii ''1234567x''))]
   \<and> run ucd_excerpt after_entry
        [(scenario_world, Text (ascii ''1234'')), (scenario_world, Text (ascii ''1234567x''))]
       = (after_entry, [ReplyText InvalidPrn, ReplyText InvalidPrn])"
proof -
  have bad: "list_all (malformed ucd_excerpt)
        [(scenario_world, Text (ascii ''1234'')), (scenario_world, Text (ascii ''1234567x''))]"
    by (simp add: malformed_def spec_valid_examples)
  from bad spec_valid_examples digit_table_excerpt scenario_conv(1)
    prn_validation [OF digit_table_excerpt scenario_conv(1), where raw = fullwidth_prn
      and w = scenario_world and evs = "[]"]
    prn_validation [OF digit_table_excerpt scenario_conv(1), where raw = "ascii ''1234567x''"
      and w = scenario_world
      and evs = "[(scenario_world, Text (ascii ''1234'')), (scenario_world, Text (ascii ''1234567x''))]"]
  show ?thesis by (simp add: spec_normalize_examples numeral_2_eq_2)
qed

subsection \<open>The phone check\<close>

text \<open>
  C7, as the code has it. In state \<open>GET_PHONE\<close> a phone is accepted if and only if,
  after trimming surrounding whitespace from both, it equals the registered phone
  (absent: the empty string). 9876543210 is rejected against 09876543210. A rejection
  answers with the mismatch message and leaves state and data as they were.
\<close>

theorem phone_match:
  assumes "conv b = Some GET_PHONE" and "ud_student_data b = Some sd"
  shows "conv_handler U w b (Text t) =
           (if strip U t = strip U (dict_get sd ''phone'' [])
            then (b\<lparr>conv := Some CONFIRM, ud_phone := Some (strip U t)\<rparr>, [ReplyText ConfirmPrompt])
            else (b, [ReplyText PhoneMismatch]))
       \<and> (dict_get sd ''phone'' [] = ascii ''09876543210'' \<longrightarrow>
            conv_handler U w b (Text (ascii ''9876543210'')) = (b, [ReplyText PhoneMismatch]))"
  by (simp add: get_phone_step [OF assms] strip_phone_examples)

theorem phone_match_witness:
  "conv (phone_bot (ascii ''09876543210'')) = Some GET_PHONE
   \<and> ud_student_data (phone_bot (ascii ''09876543210'')) = Some [(''phone'', ascii ''09876543210'')]
   \<and> dict_get [(''phone'', ascii ''09876543210'')] ''phone'' [] = ascii ''09876543210''
   \<and> conv_handler ucd_excerpt scenario_world (phone_bot (ascii ''09876543210'')) (Text (ascii ''9876543210''))
       = (phone_bot (ascii ''09876543210''), [ReplyText PhoneMismatch])
   \<and> conv_handler ucd_excerpt scenario_world (phone_bot (ascii ''09876543210'')) (Text (ascii ''09876543210''))
       = (phone_bot (ascii ''09876543210'')\<lparr>conv := Some CONFIRM, ud_phone := Some (ascii ''09876543210'')\<rparr>,
          [ReplyText ConfirmPrompt])"
  using phone_match [OF phone_bot_sel(1) [of "ascii ''09876543210''"]
      phone_bot_sel(2) [of "ascii ''09876543210''"],
      where U = ucd_excerpt and w = scenario_world and t = "ascii ''09876543210''"]
  by (simp add: phone_bot_sel strip_phone_examples)

text \<open>
  C7 as stated fails: a submitted phone with surrounding blanks is accepted against the
  registered phone without them, and a phone is accepted against a registered phone
  stored with a trailing blank; in neither case are the two strings equal.
\<close>

theorem phone_match_trims:
  "ascii '' 9000000000 '' \<noteq> ascii ''9000000000''
   \<and> conv_handler ucd_excerpt scenario_world (phone_bot (ascii ''9000000000'')) (Text (ascii '' 9000000000 ''))
       = (phone_bot (ascii ''9000000000'')\<lparr>conv := Some CONFIRM, ud_phone := Some (ascii ''9000000000'')\<rparr>,
          [ReplyText ConfirmPrompt])
   \<and> ascii ''9000000000'' \<noteq> ascii ''9000000000 ''
   \<and> conv_handler ucd_excerpt scenario_world (phone_bot (ascii ''9000000000 '')) (Text (ascii ''9000000000''))
       = (phone_bot (ascii ''9000000000 '')\<lparr>conv := Some CONFIRM, ud_phone := Some (ascii ''9000000000'')\<rparr>,
          [ReplyText ConfirmPrompt])"
  by (simp add: get_phone_step [OF phone_bot_sel(1,2)] phone_bot_sel strip_padded strip_examples)

subsection \<open>The name check\<close>

lemma toupper_space:
  assumes "space_table U"
  shows "filter (ch_isspace U) (ch_toupper U c) = filter (ch_isspace U) [c]"
proof (cases "c < 128")
  case True
  then show ?thesis by (auto simp add: ch_toupper_def ch_isspace_def)
next
  case False
  with assms show ?thesis by (simp add: ch_toupper_def space_table_def)
qed

lemma upper_space:
  assumes "space_table U"
  shows "filter (ch_isspace U) (upper U s) = filter (ch_isspace U) s"
proof (induction s)
  case Nil
  show ?case by (simp add: upper_def)
next
  case (Cons c s)
  have "upper U (c # s) = ch_toupper U c @ upper U s" by (simp add: upper_def)
  with Cons toupper_space [OF assms, of c] show ?case by simp
qed

lemma space_table_excerpt: "space_table ucd_excerpt"
  by (auto simp add: space_table_def ucd_excerpt_def ch_isspace_def)

text \<open>
  C10. In state \<open>GET_NAME\<close> a name is accepted if and only if it equals the record's
  name after trimming both and upper-casing both; nothing else is normalised. So a name
  whose whitespace characters, in order, differ from those of the record's name is
  rejected, the state and the data staying as they were: \<open>JANE  DOE\<close> and \<open>JANEDOE\<close>
  are rejected against \<open>Jane Doe\<close>, while \<open>  jane doe \<close> is accepted.
\<close>

theorem name_match:
  assumes "conv b = Some GET_NAME" and "ud_student_data b = Some sd"
  shows "conv_handler U w b (Text t) =
           (if upper U (strip U t) = upper U (strip U (dict_get sd ''name'' []))
            then (b\<lparr>conv := Some GET_PHONE, ud_name := Some (strip U t)\<rparr>, [ReplyText PhonePrompt])
            else (b, [ReplyText (NameMismatch (upper U (strip U (dict_get sd ''name'' []))))]))
       \<and> (space_table U
            \<and> filter (ch_isspace U) (strip U t)
              \<noteq> filter (ch_isspace U) (strip U (dict_get sd ''name'' [])) \<longrightarrow>
            conv_handler U w b (Text t)
              = (b, [ReplyText (NameMismatch (upper U (strip U (dict_get sd ''name'' []))))]))
       \<and> (dict_get sd ''name'' [] = ascii ''Jane Doe'' \<longrightarrow>
            conv_handler U w b (Text (ascii ''JANE  DOE''))
              = (b, [ReplyText (NameMismatch (ascii ''JANE DOE''))])
            \<and> conv_handler U w b (Text (ascii ''JANEDOE''))
              = (b, [ReplyText (NameMismatch (ascii ''JANE DOE''))])
            \<and> conv_handler U w b (Text (ascii ''  jane doe ''))
              = (b\<lparr>conv := Some GET_PHONE, ud_name := Some (ascii ''jane doe'')\<rparr>,
                 [ReplyText PhonePrompt]))"
proof (intro conjI impI)
  show "conv_handler U w b (Text t) =
           (if upper U (strip U t) = upper U (strip U (dict_get sd ''name'' []))
            then (b\<lparr>conv := Some GET_PHONE, ud_name := Some (strip U t)\<rparr>, [ReplyText PhonePrompt])
            else (b, [ReplyText (NameMismatch (upper U (strip U (dict_get sd ''name'' []))))]))"
    by (rule get_name_step [OF assms])
next
  assume h: "space_table U
            \<and> filter (ch_isspace U) (strip U t)
              \<noteq> filter (ch_isspace U) (strip U (dict_get sd ''name'' []))"
  then have "upper U (strip U t) \<noteq> upper U (strip U (dict_get sd ''name'' []))"
    using upper_space [of U "strip U t"] upper_space [of U "strip U (dict_get sd ''name'' [])"]
    by auto
  then show "conv_handler U w b (Text t)
              = (b, [ReplyText (NameMismatch (upper U (strip U (dict_get sd ''name'' []))))])"
    by (simp add: get_name_step [OF assms])
next
  assume c: "dict_get sd ''name'' [] = ascii ''Jane Doe''"
  show "conv_handler U w b (Text (ascii ''JANE  DOE''))
              = (b, [ReplyText (NameMismatch (ascii ''JANE DOE''))])"
    by (simp add: get_name_step [OF assms] c strip_name_examples upper_name_examples)
  show "conv_handler U w b (Text (ascii ''JANEDOE''))
              = (b, [ReplyText (NameMismatch (ascii ''JANE DOE''))])"
    by (simp add: get_name_step [OF assms] c strip_name_examples upper_name_examples)
  show "conv_handler U w b (Text (ascii ''  jane doe ''))
              = (b\<lparr>conv := Some GET_PHONE, ud_name := Some (ascii ''jane doe'')\<rparr>,
                 [ReplyText PhonePrompt])"
    by (simp add: get_name_step [OF assms] c strip_name_examples strip_padded upper_name_examples)
qed

theorem name_match_witness:
  "conv (name_bot (ascii ''Jane Doe'')) = Some GET_NAME
   \<and> ud_student_data (name_bot (ascii ''Jane Doe'')) = Some [(''name'', ascii ''Jane Doe'')]
   \<and> dict_get [(''name'', ascii ''Jane Doe'')] ''name'' [] = ascii ''Jane Doe''
   \<and> space_table ucd_excerpt
   \<and> filter (ch_isspace ucd_excerpt) (strip ucd_excerpt (ascii ''JANE  DOE''))
       \<noteq> filter (ch_isspace ucd_excerpt) (strip ucd_excerpt (ascii ''Jane Doe''))
   \<and> conv_handler ucd_excerpt scenario_world (name_bot (ascii ''Jane Doe'')) (Text (ascii ''JANE  DOE''))
       = (name_bot (ascii ''Jane Doe''), [ReplyText (NameMismatch (ascii ''JANE DOE''))])
   \<and> conv_handler ucd_excerpt scenario_world (name_bot (ascii ''Jane Doe'')) (Text (ascii ''JANEDOE''))
       = (name_bot (ascii ''Jane Doe''), [ReplyText (NameMismatch (ascii ''JANE DOE''))])
   \<and> conv_handler ucd_excerpt scenario_world (name_bot (ascii ''Jane Doe'')) (Text (ascii ''  jane doe ''))
       = (name_bot (ascii ''Jane Doe'')\<lparr>conv := Some GET_PHONE, ud_name := Some (ascii ''jane doe'')\<rparr>,
          [ReplyText PhonePrompt])"
proof -
  have spaces: "filter (ch_isspace ucd_excerpt) (strip ucd_excerpt (ascii ''JANE  DOE''))
       \<noteq> filter (ch_isspace ucd_excerpt) (strip ucd_excerpt (ascii ''Jane Doe''))"
    by (simp add: strip_name_examples) (simp add: ascii_def ch_isspace_def)
  from spaces space_table_excerpt
    name_match [OF name_bot_sel(1) [of "ascii ''Jane Doe''"] name_bot_sel(2) [of "ascii ''Jane Doe''"],
      where U = ucd_excerpt and w = scenario_world and t = "ascii ''JANE  DOE''"]
  show ?thesis by (simp add: name_bot_sel strip_name_examples upper_name_examples)
qed

end
